theory Spec2Isabelle
  imports Complex_Main
begin

section \<open>Tensor entries\<close>

text \<open>
  The tensors of \<^verbatim>\<open>brdf.py\<close> and \<^verbatim>\<open>materials.py\<close> hold floating point
  numbers. An entry is modelled as a real number or one of the three special values of
  IEEE 754: the two infinities and not-a-number. Arithmetic on finite entries is exact
  (rounding, overflow and underflow are not modelled) and zero carries no sign: a
  nonzero finite number divided by zero gives the infinity of the numerator's sign,
  and zero divided by zero gives not-a-number. The special values follow the IEEE rules
  the source relies on: not-a-number propagates through every operation, and every
  comparison with it is false except \<^verbatim>\<open>!=\<close>.
\<close>

datatype fl = Fin real | PInf | NInf | NaN

fun fneg :: "fl \<Rightarrow> fl" where
  "fneg (Fin a) = Fin (- a)"
| "fneg PInf = NInf"
| "fneg NInf = PInf"
| "fneg NaN = NaN"

fun fadd :: "fl \<Rightarrow> fl \<Rightarrow> fl" where
  "fadd NaN _ = NaN"
| "fadd _ NaN = NaN"
| "fadd (Fin a) (Fin b) = Fin (a + b)"
| "fadd PInf NInf = NaN"
| "fadd NInf PInf = NaN"
| "fadd PInf _ = PInf"
| "fadd _ PInf = PInf"
| "fadd NInf _ = NInf"
| "fadd _ NInf = NInf"

definition fsub :: "fl \<Rightarrow> fl \<Rightarrow> fl" where
  "fsub x y = fadd x (fneg y)"

fun fmul :: "fl \<Rightarrow> fl \<Rightarrow> fl" where
  "fmul NaN _ = NaN"
| "fmul _ NaN = NaN"
| "fmul (Fin a) (Fin b) = Fin (a * b)"
| "fmul (Fin a) PInf = (if a = 0 then NaN else if 0 < a then PInf else NInf)"
| "fmul (Fin a) NInf = (if a = 0 then NaN else if 0 < a then NInf else PInf)"
| "fmul PInf (Fin b) = (if b = 0 then NaN else if 0 < b then PInf else NInf)"
| "fmul NInf (Fin b) = (if b = 0 then NaN else if 0 < b then NInf else PInf)"
| "fmul PInf PInf = PInf"
| "fmul PInf NInf = NInf"
| "fmul NInf PInf = NInf"
| "fmul NInf NInf = PInf"

fun fdiv :: "fl \<Rightarrow> fl \<Rightarrow> fl" where
  "fdiv NaN _ = NaN"
| "fdiv _ NaN = NaN"
| "fdiv (Fin a) (Fin b) =
     (if b = 0 then (if a = 0 then NaN else if 0 < a then PInf else NInf)
      else Fin (a / b))"
| "fdiv (Fin a) PInf = Fin 0"
| "fdiv (Fin a) NInf = Fin 0"
| "fdiv PInf (Fin b) = (if 0 \<le> b then PInf else NInf)"
| "fdiv NInf (Fin b) = (if 0 \<le> b then NInf else PInf)"
| "fdiv _ _ = NaN"

fun fsqrt :: "fl \<Rightarrow> fl" where
  "fsqrt (Fin a) = (if a < 0 then NaN else Fin (sqrt a))"
| "fsqrt PInf = PInf"
| "fsqrt NInf = NaN"
| "fsqrt NaN = NaN"

fun flog :: "fl \<Rightarrow> fl" where
  "flog (Fin a) = (if a < 0 then NaN else if a = 0 then NInf else Fin (ln a))"
| "flog PInf = PInf"
| "flog NInf = NaN"
| "flog NaN = NaN"

text \<open>The comparisons \<^verbatim>\<open>==\<close>, \<^verbatim>\<open>!=\<close>, \<^verbatim>\<open><=\<close> and \<^verbatim>\<open>>=\<close> of two entries.\<close>

fun feq :: "fl \<Rightarrow> fl \<Rightarrow> bool" where
  "feq NaN _ = False"
| "feq _ NaN = False"
| "feq x y = (x = y)"

definition fne :: "fl \<Rightarrow> fl \<Rightarrow> bool" where
  "fne x y = (\<not> feq x y)"

fun fle :: "fl \<Rightarrow> fl \<Rightarrow> bool" where
  "fle NaN _ = False"
| "fle _ NaN = False"
| "fle (Fin a) (Fin b) = (a \<le> b)"
| "fle NInf _ = True"
| "fle _ PInf = True"
| "fle _ _ = False"

definition fge :: "fl \<Rightarrow> fl \<Rightarrow> bool" where
  "fge x y = fle y x"

text \<open>
  \<^verbatim>\<open>clamp_(min=lo, max=hi)\<close> and \<^verbatim>\<open>clamp_(min=lo)\<close> at one entry:
  not-a-number stays, everything else is moved to the nearest bound.
\<close>

fun fclamp :: "real \<Rightarrow> real \<Rightarrow> fl \<Rightarrow> fl" where
  "fclamp lo hi (Fin a) = Fin (min (max a lo) hi)"
| "fclamp lo hi PInf = Fin hi"
| "fclamp lo hi NInf = Fin lo"
| "fclamp lo hi NaN = NaN"

fun fclamp_min :: "real \<Rightarrow> fl \<Rightarrow> fl" where
  "fclamp_min lo (Fin a) = Fin (max a lo)"
| "fclamp_min lo PInf = PInf"
| "fclamp_min lo NInf = Fin lo"
| "fclamp_min lo NaN = NaN"

definition is_finite :: "fl \<Rightarrow> bool" where
  "is_finite x = (case x of Fin _ \<Rightarrow> True | _ \<Rightarrow> False)"

section \<open>The kernels of brdf.py, at one tensor entry\<close>

text \<open>
  \<^verbatim>\<open>SmithG1(NdotWs, p_roughness)\<close> at one entry. The source clamps its argument
  in place (\<^verbatim>\<open>NdotWs.clamp_\<close>), so the caller's tensor is changed too: the
  second component is the entry of \<^verbatim>\<open>NdotWs\<close> after the call. The two masked
  assignments are applied in the order of the source.
\<close>

definition SmithG1 :: "fl \<Rightarrow> fl \<Rightarrow> fl \<times> fl" where
  "SmithG1 NdotW p_roughness =
     (let cos_thetas = fclamp 0 1 NdotW;
          sin_thetas = fsqrt (fsub (Fin 1) (fmul cos_thetas cos_thetas));
          cot_thetas = fdiv cos_thetas sin_thetas;
          prelims = fdiv cot_thetas p_roughness;
          prelims2 = fmul prelims prelims;
          Gs = fdiv (fadd (fmul (Fin 3.535) prelims) (fmul (Fin 2.181) prelims2))
                    (fadd (fadd (Fin 1) (fmul (Fin 2.276) prelims)) (fmul (Fin 2.577) prelims2));
          Gs1 = (if feq sin_thetas (Fin 0) then Fin 1 else Gs);
          Gs2 = (if fge prelims (Fin 1.6) then Fin 1 else Gs1)
      in (Gs2, cos_thetas))"

text \<open>
  The rational approximation as the specification writes it:
  numerator \<open>3.535 x + 2.181 x\<^sup>2\<close>, denominator \<open>1 + 2.276 x + 2.577 x\<^sup>2\<close>.
\<close>

definition G1_rational :: "real \<Rightarrow> real" where
  "G1_rational x = (3.535 * x + 2.181 * x\<^sup>2) / (1 + 2.276 * x + 2.577 * x\<^sup>2)"

text \<open>
  \<^verbatim>\<open>Fresnel(NdotLs, p_eta_mat)\<close> at one entry; \<^verbatim>\<open>x ** 2\<close> is the product
  of the entry with itself.
\<close>

definition Fresnel :: "fl \<Rightarrow> fl \<Rightarrow> fl" where
  "Fresnel NdotLs p_eta_mat =
     (let cos_thetas_env = NdotLs;
          cos_thetas_mat =
            fdiv (fsqrt (fsub (fadd (fmul cos_thetas_env cos_thetas_env)
                                    (fmul p_eta_mat p_eta_mat)) (Fin 1))) p_eta_mat;
          r_p = fdiv (fsub (fmul p_eta_mat cos_thetas_env) cos_thetas_mat)
                     (fadd (fmul p_eta_mat cos_thetas_env) cos_thetas_mat);
          r_s = fdiv (fsub cos_thetas_env (fmul p_eta_mat cos_thetas_mat))
                     (fadd cos_thetas_env (fmul p_eta_mat cos_thetas_mat))
      in fdiv (fadd (fmul r_p r_p) (fmul r_s r_s)) (Fin 2))"

text \<open>
  \<^verbatim>\<open>GTR(NdotHs, p_roughness)\<close> at one entry, with the default \<^verbatim>\<open>gamma=1.\<close>:
  the only call of the source passes no \<^verbatim>\<open>gamma\<close>, so the branch
  \<^verbatim>\<open>gamma == 1.\<close> is the one that runs.
\<close>

definition GTR :: "fl \<Rightarrow> fl \<Rightarrow> fl" where
  "GTR NdotHs p_roughness =
     (let cosNH2 = fclamp 0 1 (fmul NdotHs NdotHs);
          p_roughness2 = fmul p_roughness p_roughness;
          cs = fdiv (fsub p_roughness2 (Fin 1)) (flog p_roughness2)
      in fdiv cs (fadd (Fin 1) (fmul (fsub p_roughness2 (Fin 1)) cosNH2)))"

text \<open>
  Lines 246 to 251 of \<^verbatim>\<open>CookTorrance.calculate_rhos\<close> at one entry (one point,
  one light, one colour channel): the specular term, the masked assignment
  \<^verbatim>\<open>CTs[CTs != CTs] = 0\<close>, and the sum with the diffuse term. The product
  \<^verbatim>\<open>4 * np.pi\<close> is a Python float before it meets a tensor.
\<close>

definition specular_term :: "fl \<Rightarrow> fl \<Rightarrow> fl \<Rightarrow> fl \<Rightarrow> fl \<Rightarrow> fl \<Rightarrow> fl" where
  "specular_term p_specular Fs Ds Gs NdotLs NdotVs =
     fdiv (fmul p_specular (fmul (fmul Fs Ds) Gs))
          (fmul (fmul (Fin (4 * pi)) NdotLs) NdotVs)"

definition guard_bad_denominators :: "fl \<Rightarrow> fl" where
  "guard_bad_denominators CTs = (if fne CTs CTs then Fin 0 else CTs)"

definition combine_rhos :: "fl \<Rightarrow> fl \<Rightarrow> fl \<Rightarrow> fl \<Rightarrow> fl \<Rightarrow> fl \<Rightarrow> fl \<Rightarrow> fl" where
  "combine_rhos p_diffuse p_specular Fs Ds Gs NdotLs NdotVs =
     fadd (fdiv p_diffuse (Fin pi))
          (guard_bad_denominators (specular_term p_specular Fs Ds Gs NdotLs NdotVs))"

section \<open>Tensors, dictionaries and errors\<close>

text \<open>
  A tensor is a nested list, its last axis innermost. A trailing axis of size one that
  the source keeps for broadcasting (\<^verbatim>\<open>keepdim=True\<close>, \<^verbatim>\<open>view(-1,1,1)\<close>) is
  not represented, so \<^verbatim>\<open>NdotHs\<close>, documented as \<open>N \<times> L \<times> 1\<close>, is a list of
  \<open>N\<close> lists of \<open>L\<close> entries.
\<close>

type_synonym vec = "fl list"
type_synonym matrix = "fl list list"
type_synonym tensor3 = "fl list list list"

datatype pyerror =
  NameError string
| AttributeError string
| TypeError string
| KeyError string
| IndexError string
| RuntimeError string
| FatalError string

text \<open>
  A Python value as the two modules use them: a tensor, a \<^verbatim>\<open>dict\<close> with string
  keys (in insertion order), or any other object. The leaves are matrices where a
  function only reads the numbers, and references into the store where it mutates.
\<close>

datatype 'a pytree = Tensor 'a | Dict "(string \<times> 'a pytree) list" | Other

definition subscript :: "'a pytree \<Rightarrow> string \<Rightarrow> pyerror + 'a pytree" where
  "subscript d k =
     (case d of
        Dict kvs \<Rightarrow> (case map_of kvs k of Some v \<Rightarrow> Inr v | None \<Rightarrow> Inl (KeyError k))
      | Tensor _ \<Rightarrow> Inl (IndexError k)
      | Other \<Rightarrow> Inl (TypeError ''object is not subscriptable''))"

definition contains_key :: "'a pytree \<Rightarrow> string \<Rightarrow> pyerror + bool" where
  "contains_key d k =
     (case d of
        Dict kvs \<Rightarrow> Inr (map_of kvs k \<noteq> None)
      | _ \<Rightarrow> Inl (TypeError ''argument is not iterable''))"

definition as_tensor :: "'a pytree \<Rightarrow> pyerror + 'a" where
  "as_tensor v =
     (case v of Tensor t \<Rightarrow> Inr t | _ \<Rightarrow> Inl (AttributeError ''object is no tensor''))"

definition is_shape2 :: "nat \<Rightarrow> nat \<Rightarrow> matrix \<Rightarrow> bool" where
  "is_shape2 n b m = (length m = n \<and> list_all (\<lambda>r. length r = b) m)"

definition is_shape3 :: "nat \<Rightarrow> nat \<Rightarrow> nat \<Rightarrow> tensor3 \<Rightarrow> bool" where
  "is_shape3 n l b t = (length t = n \<and> list_all (is_shape2 l b) t)"

definition light_count :: "tensor3 \<Rightarrow> nat" where
  "light_count Ls = (case Ls of [] \<Rightarrow> 0 | ls # _ \<Rightarrow> length ls)"

text \<open>
  The shapes the docstrings fix: \<^verbatim>\<open>Ls\<close> is \<open>N \<times> L \<times> 3\<close>, \<^verbatim>\<open>Vs\<close> and
  \<^verbatim>\<open>normals\<close> are \<open>N \<times> 3\<close>. Other shapes are outside the model: it answers
  a \<^verbatim>\<open>RuntimeError\<close> for them, as torch does for a \<^verbatim>\<open>view\<close> that does not
  fit (torch would broadcast an axis of size one, which the model does not follow).
\<close>

definition batch_ok :: "tensor3 \<Rightarrow> matrix \<Rightarrow> matrix \<Rightarrow> bool" where
  "batch_ok Ls Vs normals =
     (is_shape3 (length Ls) (light_count Ls) 3 Ls
      \<and> is_shape2 (length Ls) 3 Vs \<and> is_shape2 (length Ls) 3 normals)"

section \<open>Vector helpers\<close>

definition fsum :: "fl list \<Rightarrow> fl" where
  "fsum xs = foldl fadd (Fin 0) xs"

text \<open>
  Modelled from the spec: \<^verbatim>\<open>utils/vectors.py\<close> (\<^verbatim>\<open>inner_product\<close>,
  \<^verbatim>\<open>normalize\<close>) is not among the sources. Section 2 names them "vector inner
  product, normalization" and section 4.1 uses them as \<open>H = normalize(L + V)\<close> and
  \<open>NdotH = normal \<cdot> H\<close>: the inner product sums the products of the components over
  the last axis, and normalization divides a vector by its Euclidean norm.
\<close>

definition inner_product :: "vec \<Rightarrow> vec \<Rightarrow> fl" where
  "inner_product u v = fsum (map2 fmul u v)"

definition normalize_vec :: "vec \<Rightarrow> vec" where
  "normalize_vec v = map (\<lambda>x. fdiv x (fsqrt (inner_product v v))) v"

section \<open>brdf.py\<close>

text \<open>
  \<^verbatim>\<open>BrdfParametrization._calculate_NdotHs\<close>: \<^verbatim>\<open>Vs\<close> is broadcast over the
  light axis, the half-vectors are normalized, and each is multiplied with the normal
  of its point.
\<close>

definition calculate_NdotHs :: "tensor3 \<Rightarrow> matrix \<Rightarrow> matrix \<Rightarrow> pyerror + (tensor3 \<times> matrix)" where
  "calculate_NdotHs Ls Vs normals =
     (if batch_ok Ls Vs normals
      then (let Hs = map2 (\<lambda>ls v. map (\<lambda>l. normalize_vec (map2 fadd l v)) ls) Ls Vs;
                NdotHs = map2 (\<lambda>n hs. map (\<lambda>h. inner_product n h) hs) normals Hs
            in Inr (Hs, NdotHs))
      else Inl (RuntimeError ''shape''))"



text \<open>
  \<^verbatim>\<open>CookTorrance.calculate_rhos\<close> for one point and one light. The arguments
  are the light direction, the view direction and the normal of the point, its rows of
  \<^verbatim>\<open>parameters['diffuse']\<close> and \<^verbatim>\<open>parameters['specular']['albedo']\<close>, its
  entry of \<^verbatim>\<open>parameters['specular']['roughness']\<close>, and its entry of
  \<^verbatim>\<open>parameters['specular']['eta']\<close> when the key is present. The two calls of
  \<^verbatim>\<open>SmithG1\<close> clamp \<^verbatim>\<open>NdotLs\<close> and \<^verbatim>\<open>NdotVs\<close> in place, and the
  denominator of line 246 reads the clamped tensors.
\<close>

definition CookTorrance_at ::
  "vec \<Rightarrow> vec \<Rightarrow> vec \<Rightarrow> vec \<Rightarrow> vec \<Rightarrow> fl \<Rightarrow> fl option \<Rightarrow> vec \<times> fl" where
  "CookTorrance_at L V normal p_diffuse p_specular roughness eta =
     (let H = normalize_vec (map2 fadd L V);
          NdotH = inner_product normal H;
          NdotL = inner_product normal L;
          NdotV = inner_product normal V;
          VdotH = inner_product V H;
          p_roughness = fmul roughness roughness;
          Fs = (case eta of Some p_eta \<Rightarrow> Fresnel VdotH p_eta | None \<Rightarrow> Fin 1);
          Ds = GTR NdotH p_roughness;
          (G_L, NdotL_clamped) = SmithG1 NdotL p_roughness;
          (G_V, NdotV_clamped) = SmithG1 NdotV p_roughness;
          Gs = fmul G_L G_V
      in (map2 (\<lambda>d s. combine_rhos d s Fs Ds Gs NdotL_clamped NdotV_clamped)
            p_diffuse p_specular,
          NdotH))"

text \<open>
  The optional Fresnel parameter: \<^verbatim>\<open>'eta' in parameters['specular']\<close> decides
  whether the \<open>N \<times> 1\<close> tensor is read.
\<close>

definition eta_column :: "nat \<Rightarrow> matrix pytree \<Rightarrow> pyerror + fl option list" where
  "eta_column n specular =
     (case contains_key specular ''eta'' of
        Inl e \<Rightarrow> Inl e
      | Inr False \<Rightarrow> Inr (replicate n None)
      | Inr True \<Rightarrow>
          (case subscript specular ''eta'' of
             Inl e \<Rightarrow> Inl e
           | Inr t \<Rightarrow>
               (case as_tensor t of
                  Inl e \<Rightarrow> Inl e
                | Inr m \<Rightarrow>
                    if is_shape2 n 1 m then Inr (map (\<lambda>r. Some (hd r)) m)
                    else Inl (RuntimeError ''shape''))))"

definition CookTorrance_calculate_rhos ::
  "tensor3 \<Rightarrow> matrix \<Rightarrow> matrix \<Rightarrow> matrix pytree \<Rightarrow> pyerror + (tensor3 \<times> matrix)" where
  "CookTorrance_calculate_rhos Ls Vs normals parameters =
     (case calculate_NdotHs Ls Vs normals of
        Inl e \<Rightarrow> Inl e
      | Inr _ \<Rightarrow>
     (case subscript parameters ''diffuse'' of Inl e \<Rightarrow> Inl e | Inr dv \<Rightarrow>
     (case subscript parameters ''specular'' of Inl e \<Rightarrow> Inl e | Inr specular \<Rightarrow>
     (case subscript specular ''albedo'' of Inl e \<Rightarrow> Inl e | Inr av \<Rightarrow>
     (case subscript specular ''roughness'' of Inl e \<Rightarrow> Inl e | Inr rv \<Rightarrow>
     (case eta_column (length Ls) specular of Inl e \<Rightarrow> Inl e | Inr etas \<Rightarrow>
     (case (as_tensor dv, as_tensor av, as_tensor rv) of
        (Inr p_diffuse, Inr p_specular, Inr roughness) \<Rightarrow>
          if is_shape2 (length Ls) 3 p_diffuse \<and> is_shape2 (length Ls) 3 p_specular
             \<and> is_shape2 (length Ls) 1 roughness
          then (let out = map (\<lambda>i. map (\<lambda>l. CookTorrance_at l (Vs ! i) (normals ! i)
                                  (p_diffuse ! i) (p_specular ! i) (hd (roughness ! i)) (etas ! i))
                                (Ls ! i)) [0..<length Ls]
                in Inr (map (map fst) out, map (map snd) out))
          else Inl (RuntimeError ''shape'')
      | _ \<Rightarrow> Inl (AttributeError ''object is no tensor''))))))))"

text \<open>The three reflectance models and their \<^verbatim>\<open>get_parameter_count\<close>.\<close>

datatype brdf = Diffuse | CookTorrance | CookTorranceF1

fun get_parameter_count :: "brdf \<Rightarrow> nat \<times> (string \<times> nat) list" where
  "get_parameter_count Diffuse = (3, [])"
| "get_parameter_count CookTorrance = (3, [(''albedo'', 3), (''roughness'', 1), (''eta'', 1)])"
| "get_parameter_count CookTorranceF1 = (3, [(''albedo'', 3), (''roughness'', 1)])"

text \<open>
  A call of a function through its class, \<^verbatim>\<open>CookTorrance.calculate_rhos(...)\<close>,
  binds the positional arguments to the parameters
  \<^verbatim>\<open>(self, Ls, Vs, normals, parameters)\<close> in order, with no instance put in front.
  Python raises a \<^verbatim>\<open>TypeError\<close> before the body runs when their number is not
  the number of parameters.
\<close>

datatype pyarg = Arg3 tensor3 | Arg2 matrix | ArgDict "matrix pytree" | ArgSelf brdf

definition CookTorrance_calculate_rhos_function ::
  "pyarg list \<Rightarrow> pyerror + (tensor3 \<times> matrix)" where
  "CookTorrance_calculate_rhos_function args =
     (if length args = 5
      then (case (args ! 1, args ! 2, args ! 3, args ! 4) of
              (Arg3 Ls, Arg2 Vs, Arg2 normals, ArgDict parameters) \<Rightarrow>
                CookTorrance_calculate_rhos Ls Vs normals parameters
            | _ \<Rightarrow> Inl (AttributeError ''argument of another type''))
      else Inl (TypeError ''calculate_rhos(): wrong number of positional arguments''))"

text \<open>
  \<^verbatim>\<open>CookTorranceF1.calculate_rhos(self, Ls, Vs, normals, parameters)\<close> passes
  \<^verbatim>\<open>Ls, Vs, normals\<close> and nothing else.
\<close>

definition CookTorranceF1_calculate_rhos ::
  "tensor3 \<Rightarrow> matrix \<Rightarrow> matrix \<Rightarrow> matrix pytree \<Rightarrow> pyerror + (tensor3 \<times> matrix)" where
  "CookTorranceF1_calculate_rhos Ls Vs normals parameters =
     CookTorrance_calculate_rhos_function [Arg3 Ls, Arg2 Vs, Arg2 normals]"

section \<open>The store\<close>

text \<open>
  The methods that mutate work on tensors that share storage: \<^verbatim>\<open>t.data\<close>,
  \<^verbatim>\<open>t.detach()\<close> and \<^verbatim>\<open>torch.nn.Parameter(t)\<close> are new tensor objects on
  the storage of \<^verbatim>\<open>t\<close>, while \<^verbatim>\<open>t.clone()\<close> and a matrix product
  allocate. The store is the list of all storages (each an \<open>N \<times> B\<close> matrix), an
  address is an index into it, and a tensor object is its address together with the
  one attribute the claims read, \<^verbatim>\<open>requires_grad\<close> (true for a
  \<^verbatim>\<open>torch.nn.Parameter\<close>).
\<close>

type_synonym addr = nat
type_synonym heap = "matrix list"

record tensor =
  storage :: addr
  requires_grad :: bool

definition alloc :: "heap \<Rightarrow> matrix \<Rightarrow> addr \<times> heap" where
  "alloc h m = (length h, h @ [m])"

text \<open>An elementwise in-place operation on \<^verbatim>\<open>t.data\<close>.\<close>

definition inplace :: "heap \<Rightarrow> tensor \<Rightarrow> (fl \<Rightarrow> fl) \<Rightarrow> heap" where
  "inplace h t f = h[storage t := map (map f) (h ! storage t)]"

text \<open>The numbers a nested dictionary of tensors holds in a store.\<close>

definition deref :: "heap \<Rightarrow> tensor pytree \<Rightarrow> matrix pytree" where
  "deref h d = map_pytree (\<lambda>t. h ! storage t) d"

section \<open>Projection onto the feasible domain (brdf.py)\<close>

text \<open>
  A name in a method body of \<^verbatim>\<open>brdf.py\<close> is looked up among the local
  variables, then among the names the module binds at top level (modules, classes and
  functions: objects that are no dictionaries); a name bound nowhere (no builtin is
  called \<^verbatim>\<open>params\<close>) raises \<^verbatim>\<open>NameError\<close>.
\<close>

definition brdf_globals :: "string list" where
  "brdf_globals =
     [''np'', ''torch'', ''abstractmethod'', ''abstractstaticmethod'', ''inner_product'',
      ''normalize'', ''Parametrization'', ''BrdfParametrization'', ''Diffuse'', ''Fresnel'',
      ''Beckmann'', ''GTR'', ''SmithG1'', ''CookTorrance'', ''CookTorranceF1'',
      ''BrdfParametrizationFactory'']"

definition load_name :: "(string \<times> tensor pytree) list \<Rightarrow> string \<Rightarrow> pyerror + tensor pytree" where
  "load_name locals name =
     (case map_of locals name of
        Some v \<Rightarrow> Inr v
      | None \<Rightarrow> if name \<in> set brdf_globals then Inr Other else Inl (NameError name))"

fun subscripts :: "tensor pytree \<Rightarrow> string list \<Rightarrow> pyerror + tensor pytree" where
  "subscripts v [] = Inr v"
| "subscripts v (k # ks) =
     (case subscript v k of Inl e \<Rightarrow> Inl e | Inr w \<Rightarrow> subscripts w ks)"

text \<open>
  One statement \<^verbatim>\<open>name[k1]...[kn].data.clamp_(...)\<close>: the name is loaded, the
  keys are followed, and the tensor found is clamped in place.
\<close>

definition clamp_statement ::
  "(string \<times> tensor pytree) list \<Rightarrow> string \<Rightarrow> string list \<Rightarrow> (fl \<Rightarrow> fl) \<Rightarrow> heap
     \<Rightarrow> pyerror + heap" where
  "clamp_statement locals name keys f h =
     (case load_name locals name of
        Inl e \<Rightarrow> Inl e
      | Inr v \<Rightarrow>
          (case subscripts v keys of
             Inl e \<Rightarrow> Inl e
           | Inr w \<Rightarrow>
               (case as_tensor w of
                  Inl e \<Rightarrow> Inl e
                | Inr t \<Rightarrow> Inr (inplace h t f))))"

text \<open>
  \<^verbatim>\<open>Diffuse.enforce_parameter_bounds(self, parameters)\<close>. A method returns the
  store as it is when the method ends or raises, and the exception if it raised.
\<close>

definition Diffuse_enforce_parameter_bounds :: "heap \<Rightarrow> tensor pytree \<Rightarrow> (pyerror + unit) \<times> heap" where
  "Diffuse_enforce_parameter_bounds h parameters =
     (let locals = [(''self'', Other), (''parameters'', parameters)] in
      case clamp_statement locals ''parameters'' [''diffuse''] (fclamp_min 0) h of
        Inl e \<Rightarrow> (Inl e, h)
      | Inr h1 \<Rightarrow> (Inr (), h1))"

text \<open>
  \<^verbatim>\<open>CookTorrance.enforce_parameter_bounds(self, parameters)\<close>: the parameter is
  called \<^verbatim>\<open>parameters\<close>, the body reads \<^verbatim>\<open>params\<close>.
\<close>

definition CookTorrance_enforce_parameter_bounds ::
  "heap \<Rightarrow> tensor pytree \<Rightarrow> (pyerror + unit) \<times> heap" where
  "CookTorrance_enforce_parameter_bounds h parameters =
     (let locals = [(''self'', Other), (''parameters'', parameters)] in
      case clamp_statement locals ''params'' [''diffuse''] (fclamp_min 0) h of
        Inl e \<Rightarrow> (Inl e, h)
      | Inr h1 \<Rightarrow>
     (case clamp_statement locals ''params'' [''specular'', ''albedo''] (fclamp_min 0) h1 of
        Inl e \<Rightarrow> (Inl e, h1)
      | Inr h2 \<Rightarrow>
     (case clamp_statement locals ''params'' [''specular'', ''roughness'']
             (fclamp (1 / 10 ^ 6) (1 - 1 / 10 ^ 6)) h2 of
        Inl e \<Rightarrow> (Inl e, h2)
      | Inr h3 \<Rightarrow>
     (case load_name locals ''params'' of
        Inl e \<Rightarrow> (Inl e, h3)
      | Inr v \<Rightarrow>
     (case subscript v ''specular'' of
        Inl e \<Rightarrow> (Inl e, h3)
      | Inr sp \<Rightarrow>
     (case contains_key sp ''eta'' of
        Inl e \<Rightarrow> (Inl e, h3)
      | Inr False \<Rightarrow> (Inr (), h3)
      | Inr True \<Rightarrow>
          (case clamp_statement locals ''params'' [''specular'', ''eta'']
                  (fclamp 1.0001 2.999) h3 of
             Inl e \<Rightarrow> (Inl e, h3)
           | Inr h4 \<Rightarrow> (Inr (), h4))))))))"

text \<open>
  \<^verbatim>\<open>CookTorranceF1.enforce_parameter_bounds(self, parameters)\<close> calls
  \<^verbatim>\<open>CookTorrance.enforce_parameter_bounds(parameters)\<close> through the class: one
  positional argument for the two parameters \<^verbatim>\<open>(self, parameters)\<close>.
\<close>

definition CookTorrance_enforce_parameter_bounds_function ::
  "heap \<Rightarrow> tensor pytree list \<Rightarrow> (pyerror + unit) \<times> heap" where
  "CookTorrance_enforce_parameter_bounds_function h args =
     (if length args = 2 then CookTorrance_enforce_parameter_bounds h (args ! 1)
      else (Inl (TypeError ''enforce_parameter_bounds(): wrong number of positional arguments''), h))"

definition CookTorranceF1_enforce_parameter_bounds ::
  "heap \<Rightarrow> tensor pytree \<Rightarrow> (pyerror + unit) \<times> heap" where
  "CookTorranceF1_enforce_parameter_bounds h parameters =
     CookTorrance_enforce_parameter_bounds_function h [parameters]"

text \<open>
  Attribute lookup on a reflectance model. The three classes and their base
  \<^verbatim>\<open>BrdfParametrization\<close> define the same six names.

  Modelled from the spec: the base class \<^verbatim>\<open>Parametrization\<close>
  (\<^verbatim>\<open>parametrizations/parametrization.py\<close>) is not among the sources. Section 4.1
  gives the contract of a reflectance model as \<^verbatim>\<open>calculate_rhos\<close>,
  \<^verbatim>\<open>get_parameter_count\<close> and \<^verbatim>\<open>enforce_parameter_bounds\<close>, and section 4.2
  adds \<^verbatim>\<open>serialize\<close> and \<^verbatim>\<open>deserialize\<close>; the base class is taken to
  bring no method under another name.
\<close>

datatype brdf_method =
  M_calculate_NdotHs
| M_calculate_rhos
| M_get_parameter_count
| M_enforce_parameter_bounds
| M_serialize
| M_deserialize

definition getattr_brdf :: "brdf \<Rightarrow> string \<Rightarrow> pyerror + brdf_method" where
  "getattr_brdf b name =
     (case map_of
        [(''_calculate_NdotHs'', M_calculate_NdotHs),
         (''calculate_rhos'', M_calculate_rhos),
         (''get_parameter_count'', M_get_parameter_count),
         (''enforce_parameter_bounds'', M_enforce_parameter_bounds),
         (''serialize'', M_serialize),
         (''deserialize'', M_deserialize)] name of
        Some m \<Rightarrow> Inr m
      | None \<Rightarrow> Inl (AttributeError name))"

text \<open>
  A bound method called with one argument, the parameter dictionary. Only
  \<^verbatim>\<open>enforce_parameter_bounds\<close> and \<^verbatim>\<open>deserialize(self, *args)\<close> (whose body
  is \<^verbatim>\<open>pass\<close>) take one argument.
\<close>

definition call_with_dict ::
  "brdf \<Rightarrow> brdf_method \<Rightarrow> heap \<Rightarrow> tensor pytree \<Rightarrow> (pyerror + unit) \<times> heap" where
  "call_with_dict b m h parameters =
     (case m of
        M_enforce_parameter_bounds \<Rightarrow>
          (case b of
             Diffuse \<Rightarrow> Diffuse_enforce_parameter_bounds h parameters
           | CookTorrance \<Rightarrow> CookTorrance_enforce_parameter_bounds h parameters
           | CookTorranceF1 \<Rightarrow> CookTorranceF1_enforce_parameter_bounds h parameters)
      | M_deserialize \<Rightarrow> (Inr (), h)
      | _ \<Rightarrow> (Inl (TypeError ''wrong number of positional arguments''), h))"

section \<open>materials.py\<close>

text \<open>
  A \<^verbatim>\<open>BaseSpecularMaterials\<close> object after \<^verbatim>\<open>initialize\<close>: its identity
  (Python hashes and compares the object by identity), the reflectance model it is
  bound to, and its two attributes. \<^verbatim>\<open>initialize\<close> builds
  \<^verbatim>\<open>brdf_parameters\<close> as
  \<^verbatim>\<open>{'diffuse': P, 'specular': {name: P, ...}}\<close> with one \<open>K \<times> B\<close> parameter
  for each name of \<^verbatim>\<open>get_parameter_count\<close>, and \<^verbatim>\<open>base_weights\<close> as an
  \<open>N \<times> K\<close> parameter.
\<close>

record materials =
  oid :: nat
  brdf_parametrization :: brdf
  brdf_parameters :: "tensor pytree"
  base_weights :: tensor

text \<open>
  \<^verbatim>\<open>BaseSpecularMaterials.enforce_parameter_bounds\<close>: the weights are clamped
  in place, every row is divided in place by its sum (\<^verbatim>\<open>sum(dim=-1, keepdim=True)\<close>
  of the clamped weights), and then the attribute
  \<^verbatim>\<open>enforce_brdf_parameter_bounds\<close> of the reflectance model is looked up and
  called with the basis dictionary.
\<close>

definition renormalize_rows :: "matrix \<Rightarrow> matrix" where
  "renormalize_rows m = map (\<lambda>row. map (\<lambda>x. fdiv x (fsum row)) row) m"

definition BaseSpecularMaterials_enforce_parameter_bounds ::
  "heap \<Rightarrow> materials \<Rightarrow> (pyerror + unit) \<times> heap" where
  "BaseSpecularMaterials_enforce_parameter_bounds h self =
     (let h1 = inplace h (base_weights self) (fclamp 0 1);
          h2 = h1[storage (base_weights self) :=
                    renormalize_rows (h1 ! storage (base_weights self))]
      in case getattr_brdf (brdf_parametrization self) ''enforce_brdf_parameter_bounds'' of
           Inl e \<Rightarrow> (Inl e, h2)
         | Inr m \<Rightarrow> call_with_dict (brdf_parametrization self) m h2 (brdf_parameters self))"

text \<open>
  The matrix product \<^verbatim>\<open>W @ B\<close> of an \<open>N \<times> K\<close> with a \<open>K \<times> B\<close> matrix;
  torch raises when the inner sizes differ.
\<close>

definition ncols :: "matrix \<Rightarrow> nat" where
  "ncols B = (case B of [] \<Rightarrow> 0 | r # _ \<Rightarrow> length r)"

definition column :: "matrix \<Rightarrow> nat \<Rightarrow> fl list" where
  "column B j = map (\<lambda>r. r ! j) B"

definition matmul_ok :: "matrix \<Rightarrow> matrix \<Rightarrow> bool" where
  "matmul_ok W B =
     (list_all (\<lambda>w. length w = length B) W \<and> list_all (\<lambda>r. length r = ncols B) B)"

definition matmul_entries :: "matrix \<Rightarrow> matrix \<Rightarrow> matrix" where
  "matmul_entries W B =
     map (\<lambda>w. map (\<lambda>j. fsum (map2 fmul w (column B j))) [0..<ncols B]) W"

definition matmul :: "matrix \<Rightarrow> matrix \<Rightarrow> pyerror + matrix" where
  "matmul W B =
     (if matmul_ok W B then Inr (matmul_entries W B)
      else Inl (RuntimeError ''mat1 and mat2 shapes cannot be multiplied''))"

text \<open>
  The list comprehension of \<^verbatim>\<open>get_brdf_parameters\<close> over
  \<^verbatim>\<open>self.brdf_parameters['specular'].items()\<close>: each product is a new tensor.
\<close>

fun mix_bases ::
  "heap \<Rightarrow> tensor \<Rightarrow> (string \<times> tensor pytree) list
     \<Rightarrow> (pyerror + (string \<times> tensor pytree) list) \<times> heap" where
  "mix_bases h w [] = (Inr [], h)"
| "mix_bases h w ((name, base_parameters) # rest) =
     (case as_tensor base_parameters of
        Inl e \<Rightarrow> (Inl (TypeError ''unsupported operand for @''), h)
      | Inr b \<Rightarrow>
          (case matmul (h ! storage w) (h ! storage b) of
             Inl e \<Rightarrow> (Inl e, h)
           | Inr m \<Rightarrow>
               (let (a, h1) = alloc h m;
                    t = \<lparr>storage = a, requires_grad = requires_grad w \<or> requires_grad b\<rparr>
                in case mix_bases h1 w rest of
                     (Inl e, h2) \<Rightarrow> (Inl e, h2)
                   | (Inr kvs, h2) \<Rightarrow> (Inr ((name, Tensor t) # kvs), h2))))"

text \<open>The body of \<^verbatim>\<open>get_brdf_parameters\<close>, the function that the decorator wraps.\<close>

definition get_brdf_parameters_body ::
  "heap \<Rightarrow> materials \<Rightarrow> (pyerror + tensor pytree) \<times> heap" where
  "get_brdf_parameters_body h self =
     (case subscript (brdf_parameters self) ''diffuse'' of
        Inl e \<Rightarrow> (Inl e, h)
      | Inr d \<Rightarrow>
     (case subscript (brdf_parameters self) ''specular'' of
        Inl e \<Rightarrow> (Inl e, h)
      | Inr sp \<Rightarrow>
     (case sp of
        Dict items \<Rightarrow>
          (case mix_bases h (base_weights self) items of
             (Inl e, h1) \<Rightarrow> (Inl e, h1)
           | (Inr kvs, h1) \<Rightarrow> (Inr (Dict [(''diffuse'', d), (''specular'', Dict kvs)]), h1))
      | _ \<Rightarrow> (Inl (AttributeError ''items''), h))))"

text \<open>
  \<^verbatim>\<open>@lru_cache(maxsize=1)\<close> on the method: one cache for the function, shared by
  all instances, holding the result of the last call that missed, under the key
  \<^verbatim>\<open>self\<close>. A call whose \<^verbatim>\<open>self\<close> is the cached key returns the cached
  dictionary and does not run the body. An exception is not cached. The decorator also
  gives the method \<^verbatim>\<open>cache_clear()\<close>.
\<close>

type_synonym lru = "(nat \<times> tensor pytree) option"

definition get_brdf_parameters ::
  "heap \<Rightarrow> lru \<Rightarrow> materials \<Rightarrow> (pyerror + tensor pytree) \<times> heap \<times> lru" where
  "get_brdf_parameters h c self =
     (let hit = (case c of Some (key, v) \<Rightarrow> if key = oid self then Some v else None
                 | None \<Rightarrow> None)
      in case hit of
           Some v \<Rightarrow> (Inr v, h, c)
         | None \<Rightarrow>
             (case get_brdf_parameters_body h self of
                (Inl e, h1) \<Rightarrow> (Inl e, h1, c)
              | (Inr v, h1) \<Rightarrow> (Inr v, h1, Some (oid self, v))))"

definition cache_clear :: "lru \<Rightarrow> lru" where
  "cache_clear c = None"

text \<open>
  Modelled from the spec: \<^verbatim>\<open>utils.logging.error\<close> is not among the sources.
  Sections 4.2 and 7 call a container that is no mapping a fatal usage error that aborts
  the computation, so \<^verbatim>\<open>error(msg)\<close> is taken to raise.

  \<^verbatim>\<open>detach_and_clone_dict_recursive\<close>: \<^verbatim>\<open>value.detach().clone()\<close> allocates
  a copy that does not require gradients; any value that is no tensor goes into the
  recursive call.
\<close>

definition detach_clone :: "heap \<Rightarrow> tensor \<Rightarrow> tensor \<times> heap" where
  "detach_clone h t =
     (let (a, h1) = alloc h (h ! storage t) in (\<lparr>storage = a, requires_grad = False\<rparr>, h1))"

fun detach_and_clone_dict_recursive ::
      "heap \<Rightarrow> tensor pytree \<Rightarrow> (pyerror + tensor pytree) \<times> heap"
  and detach_and_clone_items ::
      "heap \<Rightarrow> (string \<times> tensor pytree) list
         \<Rightarrow> (pyerror + (string \<times> tensor pytree) list) \<times> heap" where
  "detach_and_clone_dict_recursive h (Dict kvs) =
     (case detach_and_clone_items h kvs of
        (Inl e, h1) \<Rightarrow> (Inl e, h1)
      | (Inr kvs1, h1) \<Rightarrow> (Inr (Dict kvs1), h1))"
| "detach_and_clone_dict_recursive h (Tensor t) =
     (Inl (FatalError ''detach_and_clone_dict_recursive acting on neither a Tensor nor a dict.''), h)"
| "detach_and_clone_dict_recursive h Other =
     (Inl (FatalError ''detach_and_clone_dict_recursive acting on neither a Tensor nor a dict.''), h)"
| "detach_and_clone_items h [] = (Inr [], h)"
| "detach_and_clone_items h ((key, Tensor t) # rest) =
     (let (t1, h1) = detach_clone h t
      in case detach_and_clone_items h1 rest of
           (Inl e, h2) \<Rightarrow> (Inl e, h2)
         | (Inr rest1, h2) \<Rightarrow> (Inr ((key, Tensor t1) # rest1), h2))"
| "detach_and_clone_items h ((key, v) # rest) =
     (case detach_and_clone_dict_recursive h v of
        (Inl e, h1) \<Rightarrow> (Inl e, h1)
      | (Inr v1, h1) \<Rightarrow>
          (case detach_and_clone_items h1 rest of
             (Inl e, h2) \<Rightarrow> (Inl e, h2)
           | (Inr rest1, h2) \<Rightarrow> (Inr ((key, v1) # rest1), h2)))"

text \<open>
  \<^verbatim>\<open>attach_dict_recursive\<close>: \<^verbatim>\<open>torch.nn.Parameter(value)\<close> is a new tensor
  object on the storage of \<^verbatim>\<open>value\<close> that requires gradients; nothing is
  allocated.
\<close>

definition as_Parameter :: "tensor \<Rightarrow> tensor" where
  "as_Parameter t = t\<lparr>requires_grad := True\<rparr>"

fun attach_dict_recursive :: "tensor pytree \<Rightarrow> pyerror + tensor pytree"
  and attach_items :: "(string \<times> tensor pytree) list \<Rightarrow> pyerror + (string \<times> tensor pytree) list" where
  "attach_dict_recursive (Dict kvs) =
     (case attach_items kvs of Inl e \<Rightarrow> Inl e | Inr kvs1 \<Rightarrow> Inr (Dict kvs1))"
| "attach_dict_recursive (Tensor t) =
     Inl (FatalError ''attach_dict_recursive acting on neither a Tensor nor a dict.'')"
| "attach_dict_recursive Other =
     Inl (FatalError ''attach_dict_recursive acting on neither a Tensor nor a dict.'')"
| "attach_items [] = Inr []"
| "attach_items ((key, Tensor t) # rest) =
     (case attach_items rest of
        Inl e \<Rightarrow> Inl e
      | Inr rest1 \<Rightarrow> Inr ((key, Tensor (as_Parameter t)) # rest1))"
| "attach_items ((key, v) # rest) =
     (case attach_dict_recursive v of
        Inl e \<Rightarrow> Inl e
      | Inr v1 \<Rightarrow>
          (case attach_items rest of
             Inl e \<Rightarrow> Inl e
           | Inr rest1 \<Rightarrow> Inr ((key, v1) # rest1)))"

text \<open>
  \<^verbatim>\<open>serialize\<close> returns the pair of the cloned weights and the cloned
  dictionary; \<^verbatim>\<open>deserialize(*args)\<close> rebinds the two attributes of the object,
  the first before the second is computed.
\<close>

definition serialize :: "heap \<Rightarrow> materials \<Rightarrow> (pyerror + tensor \<times> tensor pytree) \<times> heap" where
  "serialize h self =
     (let (w1, h1) = detach_clone h (base_weights self)
      in case detach_and_clone_dict_recursive h1 (brdf_parameters self) of
           (Inl e, h2) \<Rightarrow> (Inl e, h2)
         | (Inr d1, h2) \<Rightarrow> (Inr (w1, d1), h2))"

definition deserialize :: "materials \<Rightarrow> tensor pytree list \<Rightarrow> (pyerror + unit) \<times> materials" where
  "deserialize self args =
     (case args of
        [] \<Rightarrow> (Inl (IndexError ''tuple index out of range''), self)
      | a0 # as \<Rightarrow>
          (case as_tensor a0 of
             Inl e \<Rightarrow> (Inl (TypeError ''Parameter() of no tensor''), self)
           | Inr w \<Rightarrow>
               (let self1 = self\<lparr>base_weights := as_Parameter w\<rparr> in
                case as of
                  [] \<Rightarrow> (Inl (IndexError ''tuple index out of range''), self1)
                | a1 # _ \<Rightarrow>
                    (case attach_dict_recursive a1 of
                       Inl e \<Rightarrow> (Inl e, self1)
                     | Inr d \<Rightarrow> (Inr (), self1\<lparr>brdf_parameters := d\<rparr>)))))"

section \<open>Definitions used to state the properties\<close>

text \<open>The cosine after \<^verbatim>\<open>clamp_(min=0.0, max=1.0)\<close>, as a real number.\<close>

definition clamp01 :: "real \<Rightarrow> real" where
  "clamp01 c = min (max c 0) 1"

text \<open>The comparison \<^verbatim>\<open><\<close> of two entries (false when either is not-a-number).\<close>

definition flt :: "fl \<Rightarrow> fl \<Rightarrow> bool" where
  "flt x y = (fle x y \<and> \<not> fle y x)"

text \<open>
  The weight matrix in the store that \<^verbatim>\<open>enforce_parameter_bounds\<close> leaves behind,
  and the real number a weight is clamped to.
\<close>

definition weights_after :: "heap \<Rightarrow> materials \<Rightarrow> matrix" where
  "weights_after h self =
     snd (BaseSpecularMaterials_enforce_parameter_bounds h self) ! storage (base_weights self)"

fun clamp_value :: "fl \<Rightarrow> real" where
  "clamp_value (Fin a) = clamp01 a"
| "clamp_value PInf = 1"
| "clamp_value NInf = 0"
| "clamp_value NaN = 0"

text \<open>
  A store with a \<open>2 \<times> 2\<close> weight matrix (a row without a positive weight, and a row
  with weights outside \<open>[0, 1]\<close>) and a \<open>1 \<times> 3\<close> diffuse tensor, and an object on it.
\<close>

definition example_weights :: heap where
  "example_weights = [[[Fin (- 1), Fin 0], [Fin 2, Fin (1 / 2)]], [[Fin 1, Fin 1, Fin 1]]]"

definition example_materials :: materials where
  "example_materials =
     \<lparr>oid = 0, brdf_parametrization = Diffuse,
      brdf_parameters = Dict [(''diffuse'', Tensor \<lparr>storage = 1, requires_grad = True\<rparr>),
                              (''specular'', Dict [])],
      base_weights = \<lparr>storage = 0, requires_grad = True\<rparr>\<rparr>"






section \<open>Properties of the shadow-masking term\<close>

lemma G1_denominator_positive: "0 < 1 + 2.276 * x + 2.577 * (x::real)\<^sup>2"
proof -
  have "1 + 2.276 * x + 2.577 * x\<^sup>2
        = 2.577 * (x + 1138 / 2577)\<^sup>2 + (1 - 1138\<^sup>2 / (2577 * 1000))"
    by (simp add: power2_eq_square algebra_simps)
  moreover have "0 \<le> 2.577 * (x + 1138 / 2577)\<^sup>2" by simp
  moreover have "(0::real) < 1 - 1138\<^sup>2 / (2577 * 1000)" by simp
  ultimately show ?thesis by linarith
qed

lemma clamp01_range: "0 \<le> clamp01 c \<and> clamp01 c \<le> 1"
  by (simp add: clamp01_def)

lemma SmithG1_finite:
  assumes a: "a \<noteq> 0"
  shows "SmithG1 (Fin c) (Fin a) =
    (if sqrt (1 - (clamp01 c)\<^sup>2) = 0 then Fin 1
     else if 1.6 \<le> clamp01 c / sqrt (1 - (clamp01 c)\<^sup>2) / a then Fin 1
     else Fin (G1_rational (clamp01 c / sqrt (1 - (clamp01 c)\<^sup>2) / a)),
     Fin (clamp01 c))"
proof -
  define k where "k = clamp01 c"
  define s where "s = sqrt (1 - k\<^sup>2)"
  define x where "x = k / s / a"
  have k: "0 \<le> k" "k \<le> 1" using clamp01_range[of c] by (simp_all add: k_def)
  have sq: "\<not> 1 - k * k < 0"
  proof -
    have "k * k \<le> 1 * 1" by (rule mult_mono) (use k in simp_all)
    then show ?thesis by simp
  qed
  have c1: "fclamp 0 1 (Fin c) = Fin k" by (simp add: k_def clamp01_def)
  have c2: "fsqrt (fsub (Fin 1) (fmul (Fin k) (Fin k))) = Fin s"
    using sq by (simp add: fsub_def s_def power2_eq_square)
  have c8: "fge (Fin x) (Fin 1.6) = (1.6 \<le> x)" by (simp add: fge_def)
  show ?thesis
  proof (cases "s = 0")
    case True
    then have "k\<^sup>2 = 1" by (simp add: s_def)
    then have k1: "0 < k" using k by (cases "k = 0") simp_all
    have c3: "fdiv (Fin k) (Fin s) = PInf" using True k1 by simp
    have c7: "feq (Fin s) (Fin 0) = True" using True by simp
    have "SmithG1 (Fin c) (Fin a) = (Fin 1, Fin k)"
      unfolding SmithG1_def Let_def c1 c2 c3 c7 by (simp add: fge_def)
    then show ?thesis using True unfolding s_def k_def by simp
  next
    case False
    have c3: "fdiv (Fin k) (Fin s) = Fin (k / s)" using False by simp
    have c4: "fdiv (Fin (k / s)) (Fin a) = Fin x" using a by (simp add: x_def)
    have c5: "fmul (Fin x) (Fin x) = Fin (x\<^sup>2)" by (simp add: power2_eq_square)
    have den: "1 + 2.276 * x + 2.577 * x\<^sup>2 \<noteq> 0"
      using G1_denominator_positive[of x] by simp
    have c6: "fdiv (fadd (fmul (Fin 3.535) (Fin x)) (fmul (Fin 2.181) (Fin (x\<^sup>2))))
                (fadd (fadd (Fin 1) (fmul (Fin 2.276) (Fin x))) (fmul (Fin 2.577) (Fin (x\<^sup>2))))
              = Fin (G1_rational x)"
      using den by (simp add: G1_rational_def)
    have c7: "feq (Fin s) (Fin 0) = False" using False by simp
    have "SmithG1 (Fin c) (Fin a) = (if 1.6 \<le> x then Fin 1 else Fin (G1_rational x), Fin k)"
      unfolding SmithG1_def Let_def c1 c2 c3 c4 c5 c6 c7 c8 by simp
    then show ?thesis using False unfolding x_def s_def k_def by simp
  qed
qed

lemma SmithG1_negative_cosine:
  assumes "a \<noteq> 0" and "c < 0"
  shows "SmithG1 (Fin c) (Fin a) = (Fin 0, Fin 0)"
proof -
  have "clamp01 c = 0" using assms(2) by (simp add: clamp01_def)
  then show ?thesis using SmithG1_finite[OF assms(1), of c] by (simp add: G1_rational_def)
qed

text \<open>
  Claim C9. For a finite cosine \<open>c\<close> and a finite roughness \<open>a \<noteq> 0\<close>,
  \<^verbatim>\<open>SmithG1\<close> first clamps the cosine into \<open>[0, 1]\<close> (and leaves the clamped
  value in the caller's tensor); where the sine \<open>sqrt (1 - cos\<^sup>2)\<close> of the clamped
  cosine is zero it returns exactly 1; otherwise, with
  \<open>x = cot / a = cos / sin / a\<close>, it returns exactly 1 where \<open>x \<ge> 1.6\<close> and
  \<open>(3.535 x + 2.181 x\<^sup>2) / (1 + 2.276 x + 2.577 x\<^sup>2)\<close> where \<open>x < 1.6\<close>; and
  a cosine that was negative before the clamp gives the value 0.
\<close>

theorem SmithG1_rational_approximation:
  assumes "a \<noteq> 0"
  shows "0 \<le> clamp01 c \<and> clamp01 c \<le> 1
    \<and> snd (SmithG1 (Fin c) (Fin a)) = Fin (clamp01 c)
    \<and> fst (SmithG1 (Fin c) (Fin a)) =
        (if sqrt (1 - (clamp01 c)\<^sup>2) = 0 then Fin 1
         else if 1.6 \<le> clamp01 c / sqrt (1 - (clamp01 c)\<^sup>2) / a then Fin 1
         else Fin (G1_rational (clamp01 c / sqrt (1 - (clamp01 c)\<^sup>2) / a)))
    \<and> (if c < 0 then fst (SmithG1 (Fin c) (Fin a)) = Fin 0 else True)"
proof -
  have neg: "c < 0 \<Longrightarrow> fst (SmithG1 (Fin c) (Fin a)) = Fin 0"
    using SmithG1_negative_cosine[OF assms, of c] by simp
  show ?thesis
    unfolding SmithG1_finite[OF assms, of c] fst_conv snd_conv
    using clamp01_range[of c] neg unfolding SmithG1_finite[OF assms, of c] fst_conv
    by (cases "c < 0") simp_all
qed

theorem SmithG1_rational_approximation_witness:
  "(1 / 4 :: real) \<noteq> 0
   \<and> SmithG1 (Fin (- 2)) (Fin (1 / 4)) = (Fin 0, Fin 0)
   \<and> SmithG1 (Fin 1) (Fin (1 / 4)) = (Fin 1, Fin 1)
   \<and> SmithG1 (Fin 0) (Fin (1 / 4)) = (Fin 0, Fin 0)"
proof -
  have a: "(1 / 4 :: real) \<noteq> 0" by simp
  have "SmithG1 (Fin (- 2)) (Fin (1 / 4)) = (Fin 0, Fin 0)"
    using SmithG1_rational_approximation[OF a, of "- 2"]
    by (simp add: clamp01_def prod_eq_iff G1_rational_def)
  moreover have "SmithG1 (Fin 1) (Fin (1 / 4)) = (Fin 1, Fin 1)"
    using SmithG1_rational_approximation[OF a, of 1]
    by (simp add: clamp01_def prod_eq_iff)
  moreover have "SmithG1 (Fin 0) (Fin (1 / 4)) = (Fin 0, Fin 0)"
    using SmithG1_rational_approximation[OF a, of 0]
    by (simp add: clamp01_def prod_eq_iff G1_rational_def)
  ultimately show ?thesis using a by simp
qed

section \<open>Properties of the projections and of the restricted model\<close>

text \<open>
  Claim C1. \<^verbatim>\<open>CookTorrance.enforce_parameter_bounds\<close> is to clamp the four
  fields in place and return nothing. On the code it raises
  \<^verbatim>\<open>NameError: name 'params' is not defined\<close> at its first statement, for every
  store and every parameter dictionary, and no field is clamped.
\<close>

theorem CookTorrance_enforce_parameter_bounds_raises:
  "CookTorrance_enforce_parameter_bounds h parameters = (Inl (NameError ''params''), h)"
  by (simp add: CookTorrance_enforce_parameter_bounds_def clamp_statement_def load_name_def
      brdf_globals_def)

text \<open>
  The sibling \<^verbatim>\<open>Diffuse.enforce_parameter_bounds\<close> reads its parameter under
  its own name and clamps the diffuse albedo.
\<close>

lemma Diffuse_enforce_parameter_bounds_example:
  "Diffuse_enforce_parameter_bounds [[[Fin (- 1), Fin 2, NaN]]]
     (Dict [(''diffuse'', Tensor \<lparr>storage = 0, requires_grad = True\<rparr>)])
   = (Inr (), [[[Fin 0, Fin 2, NaN]]])"
  by (simp add: Diffuse_enforce_parameter_bounds_def clamp_statement_def load_name_def
      subscript_def as_tensor_def inplace_def)

text \<open>
  Claim C2. \<^verbatim>\<open>CookTorranceF1.calculate_rhos\<close> is to return what
  \<^verbatim>\<open>CookTorrance.calculate_rhos\<close> returns when \<^verbatim>\<open>eta\<close> is absent. On the
  code it raises a \<^verbatim>\<open>TypeError\<close> for every input, because the call through the
  class passes three arguments for five parameters. The parameter count of the
  restricted model is as claimed: albedo of width 3 and roughness of width 1, no eta.
\<close>

theorem CookTorranceF1_calculate_rhos_raises:
  "CookTorranceF1_calculate_rhos Ls Vs normals parameters =
     Inl (TypeError ''calculate_rhos(): wrong number of positional arguments'')
   \<and> get_parameter_count CookTorranceF1 = (3, [(''albedo'', 3), (''roughness'', 1)])"
  by (simp add: CookTorranceF1_calculate_rhos_def CookTorrance_calculate_rhos_function_def)

text \<open>
  At normal incidence, with no eta, \<^verbatim>\<open>CookTorrance.calculate_rhos\<close> itself
  returns the diffuse term (the specular albedo is zero here).
\<close>

lemma CookTorrance_at_normal_incidence:
  "CookTorrance_at [Fin 0, Fin 0, Fin 1] [Fin 0, Fin 0, Fin 1] [Fin 0, Fin 0, Fin 1]
     [Fin (1/2), Fin (1/2), Fin (1/2)] [Fin 0, Fin 0, Fin 0] (Fin (1/2)) None
   = ([Fin (1 / 2 / pi), Fin (1 / 2 / pi), Fin (1 / 2 / pi)], Fin 1)"
  by (simp add: CookTorrance_at_def normalize_vec_def inner_product_def fsum_def Let_def
      SmithG1_def GTR_def combine_rhos_def specular_term_def guard_bad_denominators_def
      fsub_def fge_def fne_def)

lemma CookTorrance_calculate_rhos_normal_incidence:
  "CookTorrance_calculate_rhos [[[Fin 0, Fin 0, Fin 1]]] [[Fin 0, Fin 0, Fin 1]]
     [[Fin 0, Fin 0, Fin 1]]
     (Dict [(''diffuse'', Tensor [[Fin (1/2), Fin (1/2), Fin (1/2)]]),
            (''specular'', Dict [(''albedo'', Tensor [[Fin 0, Fin 0, Fin 0]]),
                                 (''roughness'', Tensor [[Fin (1/2)]])])])
   = Inr ([[[Fin (1 / 2 / pi), Fin (1 / 2 / pi), Fin (1 / 2 / pi)]]], [[Fin 1]])"
  by (simp add: CookTorrance_calculate_rhos_def calculate_NdotHs_def batch_ok_def is_shape3_def
      is_shape2_def light_count_def subscript_def as_tensor_def contains_key_def eta_column_def
      CookTorrance_at_normal_incidence)

text \<open>
  Claim C3. \<^verbatim>\<open>BaseSpecularMaterials.enforce_parameter_bounds\<close> is to complete
  without error and to project the basis dictionary through the reflectance model. On
  the code, for every object and every store, the weights are clamped and renormalized
  in place and then the lookup of \<^verbatim>\<open>enforce_brdf_parameter_bounds\<close> raises
  \<^verbatim>\<open>AttributeError\<close>: the store changes at the storage of the weights only, and
  the basis dictionary is never projected.
\<close>

theorem BaseSpecularMaterials_enforce_parameter_bounds_raises:
  "BaseSpecularMaterials_enforce_parameter_bounds h self =
     (Inl (AttributeError ''enforce_brdf_parameter_bounds''),
      h[storage (base_weights self) :=
          renormalize_rows (map (map (fclamp 0 1)) (h ! storage (base_weights self)))])"
  by (cases "storage (base_weights self) < length h")
     (simp_all add: BaseSpecularMaterials_enforce_parameter_bounds_def getattr_brdf_def
       inplace_def Let_def list_update_beyond)

section \<open>Properties of the weight renormalization\<close>

lemma foldl_fadd_Fin: "foldl fadd (Fin a) (map (\<lambda>x. Fin (f x)) xs) = Fin (a + sum_list (map f xs))"
  by (induction xs arbitrary: a) (simp_all add: add.assoc)

lemma fsum_Fin: "fsum (map (\<lambda>x. Fin (f x)) xs) = Fin (sum_list (map f xs))"
  by (simp add: fsum_def foldl_fadd_Fin)

lemma foldl_fadd_NaN: "foldl fadd NaN xs = NaN"
  by (induction xs) simp_all

lemma foldl_fadd_zero_or_NaN:
  "\<forall>x\<in>set xs. x = Fin 0 \<or> x = NaN \<Longrightarrow> a = Fin 0 \<or> a = NaN
   \<Longrightarrow> foldl fadd a xs = Fin 0 \<or> foldl fadd a xs = NaN"
proof (induction xs arbitrary: a)
  case Nil
  then show ?case by simp
next
  case (Cons x xs)
  have "x = Fin 0 \<or> x = NaN" using Cons.prems(1) by simp
  then have "fadd a x = Fin 0 \<or> fadd a x = NaN" using Cons.prems(2) by auto
  moreover have "\<forall>x\<in>set xs. x = Fin 0 \<or> x = NaN" using Cons.prems(1) by simp
  ultimately have "foldl fadd (fadd a x) xs = Fin 0 \<or> foldl fadd (fadd a x) xs = NaN"
    by (rule Cons.IH[rotated])
  then show ?case by simp
qed

lemma weights_after_row:
  assumes "storage (base_weights self) < length h" "i < length (h ! storage (base_weights self))"
  shows "weights_after h self ! i =
     map (\<lambda>x. fdiv x (fsum (map (fclamp 0 1) (h ! storage (base_weights self) ! i))))
         (map (fclamp 0 1) (h ! storage (base_weights self) ! i))"
  using assms
  by (simp add: weights_after_def BaseSpecularMaterials_enforce_parameter_bounds_def
      getattr_brdf_def inplace_def Let_def renormalize_rows_def)

lemma fclamp_nonpositive: "fle x (Fin 0) \<Longrightarrow> fclamp 0 1 x = Fin 0"
  by (cases x) simp_all

lemma fclamp_value: "x \<noteq> NaN \<Longrightarrow> fclamp 0 1 x = Fin (clamp_value x)"
  by (cases x) (simp_all add: clamp01_def)

lemma clamp_value_range: "0 \<le> clamp_value x \<and> clamp_value x \<le> 1"
  by (cases x) (simp_all add: clamp01_def)

lemma clamp_value_pos: "flt (Fin 0) x \<Longrightarrow> 0 < clamp_value x"
  by (cases x) (simp_all add: flt_def clamp01_def)

lemma fclamp_cases: "fclamp 0 1 x = NaN \<or> (\<exists>c. fclamp 0 1 x = Fin c \<and> 0 \<le> c \<and> c \<le> 1)"
  by (cases x) simp_all

lemma member_le_sum_list_real:
  fixes f :: "'a \<Rightarrow> real"
  shows "\<forall>x\<in>set xs. 0 \<le> f x \<Longrightarrow> y \<in> set xs \<Longrightarrow> f y \<le> sum_list (map f xs)"
proof (induction xs)
  case Nil
  then show ?case by simp
next
  case (Cons x xs)
  have nn: "0 \<le> sum_list (map f xs)" using Cons.prems(1) by (auto intro!: sum_list_nonneg)
  show ?case
  proof (cases "y = x")
    case True
    then show ?thesis using nn by simp
  next
    case False
    then have "f y \<le> sum_list (map f xs)" using Cons by simp
    moreover have "0 \<le> f x" using Cons.prems(1) by simp
    ultimately show ?thesis by simp
  qed
qed

lemma all_nonpositive_row:
  assumes "list_all (\<lambda>x. fle x (Fin 0)) row"
  shows "map (fclamp 0 1) row = replicate (length row) (Fin 0)"
    and "map (\<lambda>x. fdiv x (fsum (map (fclamp 0 1) row))) (map (fclamp 0 1) row)
         = replicate (length row) NaN"
proof -
  have z: "map (fclamp 0 1) row = map (\<lambda>x. Fin ((\<lambda>_. 0) x)) row"
    using assms by (simp add: list_all_iff fclamp_nonpositive)
  show "map (fclamp 0 1) row = replicate (length row) (Fin 0)"
    using z by (simp add: map_replicate_const)
  have s: "fsum (map (fclamp 0 1) row) = Fin 0"
    unfolding z fsum_Fin by simp
  show "map (\<lambda>x. fdiv x (fsum (map (fclamp 0 1) row))) (map (fclamp 0 1) row)
         = replicate (length row) NaN"
    unfolding s unfolding z by (simp add: map_replicate_const comp_def)
qed

lemma positive_row:
  assumes nn: "list_all (\<lambda>x. x \<noteq> NaN) row" and ex: "list_ex (\<lambda>x. flt (Fin 0) x) row"
  defines "out \<equiv> map (\<lambda>x. fdiv x (fsum (map (fclamp 0 1) row))) (map (fclamp 0 1) row)"
  shows "fsum out = Fin 1" and "list_all (\<lambda>x. fle (Fin 0) x \<and> fle x (Fin 1)) out"
proof -
  define S where "S = sum_list (map clamp_value row)"
  have c: "map (fclamp 0 1) row = map (\<lambda>x. Fin (clamp_value x)) row"
    using nn by (simp add: list_all_iff fclamp_value)
  have s: "fsum (map (fclamp 0 1) row) = Fin S"
    unfolding c fsum_Fin S_def by simp
  obtain y where y: "y \<in> set row" "0 < clamp_value y"
    using ex clamp_value_pos by (auto simp: list_ex_iff)
  have le: "\<And>x. x \<in> set row \<Longrightarrow> clamp_value x \<le> S"
    unfolding S_def by (rule member_le_sum_list_real) (simp_all add: clamp_value_range)
  have Spos: "0 < S" using le[OF y(1)] y(2) by simp
  have out: "out = map (\<lambda>x. Fin (clamp_value x / S)) row"
    unfolding out_def s unfolding c using Spos by (simp add: comp_def)
  have "sum_list (map (\<lambda>x. clamp_value x / S) row) = S / S"
    unfolding S_def by (simp add: divide_inverse sum_list_mult_const)
  then show "fsum out = Fin 1" unfolding out fsum_Fin using Spos by simp
  show "list_all (\<lambda>x. fle (Fin 0) x \<and> fle x (Fin 1)) out"
    unfolding out using Spos le clamp_value_range
    by (simp add: list_all_iff)
qed

lemma no_positive_row:
  assumes "\<not> list_ex (\<lambda>x. flt (Fin 0) x) (map (fclamp 0 1) row)"
  defines "out \<equiv> map (\<lambda>x. fdiv x (fsum (map (fclamp 0 1) row))) (map (fclamp 0 1) row)"
  shows "fsum out \<noteq> Fin 1"
proof -
  have e: "\<forall>x\<in>set (map (fclamp 0 1) row). x = Fin 0 \<or> x = NaN"
  proof
    fix x assume x: "x \<in> set (map (fclamp 0 1) row)"
    then obtain r where r: "x = fclamp 0 1 r" by auto
    have "\<not> flt (Fin 0) x" using assms(1) x unfolding list_ex_iff by blast
    then show "x = Fin 0 \<or> x = NaN" using fclamp_cases[of r] r by (auto simp: flt_def)
  qed
  have S: "fsum (map (fclamp 0 1) row) = Fin 0 \<or> fsum (map (fclamp 0 1) row) = NaN"
    unfolding fsum_def by (rule foldl_fadd_zero_or_NaN[OF e]) simp
  have "\<forall>x\<in>set out. x = NaN"
    unfolding out_def using e S by auto
  then have "\<forall>x\<in>set out. x = Fin 0 \<or> x = NaN" by simp
  then have "fsum out = Fin 0 \<or> fsum out = NaN"
    unfolding fsum_def by (rule foldl_fadd_zero_or_NaN) simp
  then show ?thesis by auto
qed

text \<open>
  Claim C10. The renormalization of \<^verbatim>\<open>BaseSpecularMaterials.enforce_parameter_bounds\<close>
  divides every weight row by its sum with no guard against a zero sum. For a point
  whose weights are all \<open>\<le> 0\<close> before the call, the clamp gives a row of zeros and the
  division leaves not-a-number in every entry of the row. A row without not-a-number
  that has a strictly positive weight ends with entries in \<open>[0, 1]\<close> that sum to 1;
  and a row sums to 1 after the call only if it has a strictly positive entry after
  the clamp.
\<close>

theorem renormalization_divides_by_unguarded_sum:
  assumes "storage (base_weights self) < length h"
    and "i < length (h ! storage (base_weights self))"
  shows
   "(list_all (\<lambda>x. fle x (Fin 0)) (h ! storage (base_weights self) ! i) \<longrightarrow>
       map (fclamp 0 1) (h ! storage (base_weights self) ! i)
         = replicate (length (h ! storage (base_weights self) ! i)) (Fin 0)
       \<and> weights_after h self ! i
         = replicate (length (h ! storage (base_weights self) ! i)) NaN)
    \<and> (list_all (\<lambda>x. x \<noteq> NaN) (h ! storage (base_weights self) ! i)
        \<and> list_ex (flt (Fin 0)) (h ! storage (base_weights self) ! i) \<longrightarrow>
          fsum (weights_after h self ! i) = Fin 1
          \<and> list_all (\<lambda>x. fle (Fin 0) x \<and> fle x (Fin 1)) (weights_after h self ! i))
    \<and> (fsum (weights_after h self ! i) = Fin 1 \<longrightarrow>
          list_ex (flt (Fin 0)) (map (fclamp 0 1) (h ! storage (base_weights self) ! i)))"
  unfolding weights_after_row[OF assms]
  using all_nonpositive_row[of "h ! storage (base_weights self) ! i"]
    positive_row[of "h ! storage (base_weights self) ! i"]
    no_positive_row[of "h ! storage (base_weights self) ! i"]
  by blast

theorem renormalization_divides_by_unguarded_sum_witness:
  "storage (base_weights example_materials) < length example_weights
   \<and> weights_after example_weights example_materials ! 0 = [NaN, NaN]
   \<and> fsum (weights_after example_weights example_materials ! 1) = Fin 1"
proof -
  have s: "storage (base_weights example_materials) < length example_weights"
    by (simp add: example_materials_def example_weights_def)
  have i0: "0 < length (example_weights ! storage (base_weights example_materials))"
    and i1: "1 < length (example_weights ! storage (base_weights example_materials))"
    by (simp_all add: example_materials_def example_weights_def)
  have "weights_after example_weights example_materials ! 0 = [NaN, NaN]"
    using renormalization_divides_by_unguarded_sum[OF s i0]
    by (simp add: example_materials_def example_weights_def)
  moreover have "fsum (weights_after example_weights example_materials ! 1) = Fin 1"
    using renormalization_divides_by_unguarded_sum[OF s i1]
    by (simp add: example_materials_def example_weights_def flt_def)
  ultimately show ?thesis using s by simp
qed

section \<open>Properties of the guard in CookTorrance.calculate_rhos\<close>

lemma guard_bad_denominators_cases:
  "guard_bad_denominators x = (if x = NaN then Fin 0 else x)"
  by (cases x) (simp_all add: guard_bad_denominators_def fne_def)











lemma guard_keeps_infinity:
  "guard_bad_denominators PInf = PInf \<and> guard_bad_denominators NInf = NInf"
  by (simp add: guard_bad_denominators_cases)




section \<open>Properties of Diffuse.calculate_rhos\<close>

lemma map2_nth:
  assumes "length ys = length xs"
  shows "map2 f xs ys = map (\<lambda>i. f (xs ! i) (ys ! i)) [0..<length xs]"
  using assms by (intro nth_equalityI) simp_all






end
